theory Spec2Isabelle
  imports Complex_Main "HOL-Library.Sublist"
begin

text \<open>
  A model of the document pipeline of GryLin and of what its specification claims: the scam
  detector, the classifier of transactional e-mail, the folder-name resolver, the
  validator of analysis payloads, the document scan, the deadline scheduler with the
  alerts of the guardian store, and the request throttle. The definitions come first,
  section by section in the order of the source files; the properties follow.
\<close>

section \<open>Strings of the host language\<close>

text \<open>
  A string of the program is a sequence of UTF-16 code units; a code unit is modelled as a
  natural number. \<open>str\<close> turns a literal of the theory into such a sequence.
\<close>

type_synonym jsstring = "nat list"

definition str :: "string \<Rightarrow> jsstring" where
  "str s = map of_char s"

text \<open>
  \<open>toLowerCase\<close>: the letters A-Z and the upper-case letters of the Latin-1 block
  (U+00C0 to U+00DE without the multiplication sign U+00D7) move up by 32; every other
  code unit is left as it is. The runtime also lowers the cased letters beyond U+00FF;
  texts with such letters are outside this model of the function.
\<close>

definition lowerUnit :: "nat \<Rightarrow> nat" where
  "lowerUnit c =
     (if (65 \<le> c \<and> c \<le> 90) \<or> (192 \<le> c \<and> c \<le> 222 \<and> c \<noteq> 215) then c + 32 else c)"

definition toLowerCase :: "jsstring \<Rightarrow> jsstring" where
  "toLowerCase s = map lowerUnit s"

fun startsWith :: "jsstring \<Rightarrow> jsstring \<Rightarrow> bool" where
  "startsWith s [] = True"
| "startsWith [] (p # ps) = False"
| "startsWith (c # cs) (p # ps) = (c = p \<and> startsWith cs ps)"

text \<open>\<open>s.includes(p)\<close>: \<open>p\<close> occurs in \<open>s\<close> as a contiguous run.\<close>

fun str_includes :: "jsstring \<Rightarrow> jsstring \<Rightarrow> bool" where
  "str_includes [] p = (p = [])"
| "str_includes (c # cs) p = (startsWith (c # cs) p \<or> str_includes cs p)"

text \<open>\<open>xs.join(sep)\<close>\<close>

fun join :: "jsstring \<Rightarrow> jsstring list \<Rightarrow> jsstring" where
  "join sep [] = []"
| "join sep [x] = x"
| "join sep (x # y # ys) = x @ sep @ join sep (y # ys)"

text \<open>
  White space and line terminators of the language: what \<open>\s\<close> matches in a regular
  expression and what \<open>trim\<close> removes at both ends.
\<close>

definition isSpace :: "nat \<Rightarrow> bool" where
  "isSpace c \<longleftrightarrow>
     c \<in> set [9, 10, 11, 12, 13, 32, 160, 5760, 8232, 8233, 8239, 8287, 12288, 65279]
     \<or> (8192 \<le> c \<and> c \<le> 8202)"

definition trim :: "jsstring \<Rightarrow> jsstring" where
  "trim s = rev (dropWhile isSpace (rev (dropWhile isSpace s)))"

definition isDigit :: "nat \<Rightarrow> bool" where
  "isDigit c \<longleftrightarrow> 48 \<le> c \<and> c \<le> 57"

section \<open>Regular expressions\<close>

text \<open>
  The fragment of the regular-expression language the program uses: one code unit of a
  class, the empty word, the end-of-input anchor \<open>$\<close>, sequence, alternative and
  repetition. \<open>rmatch r s\<close> lists what is left of \<open>s\<close> after each way of matching
  \<open>r\<close> at its start; \<open>regex_test\<close> is \<open>r.test(s)\<close>: some match at some position.
\<close>

datatype regex =
    Unit "nat \<Rightarrow> bool"
  | Eps
  | EndAnchor
  | Seq regex regex
  | Alt regex regex
  | Star regex

fun rmatch :: "regex \<Rightarrow> jsstring \<Rightarrow> jsstring list" where
  "rmatch (Unit p) [] = []"
| "rmatch (Unit p) (c # cs) = (if p c then [cs] else [])"
| "rmatch Eps s = [s]"
| "rmatch EndAnchor s = (if s = [] then [[]] else [])"
| "rmatch (Seq a b) s = concat (map (rmatch b) (rmatch a s))"
| "rmatch (Alt a b) s = rmatch a s @ rmatch b s"
| "rmatch (Star a) s =
     s # concat (map (rmatch (Star a)) (filter (\<lambda>t. length t < length s) (rmatch a s)))"

fun regex_test :: "regex \<Rightarrow> jsstring \<Rightarrow> bool" where
  "regex_test r [] = (rmatch r [] \<noteq> [])"
| "regex_test r (c # cs) = (rmatch r (c # cs) \<noteq> [] \<or> regex_test r cs)"

definition Plus :: "regex \<Rightarrow> regex" where
  "Plus r = Seq r (Star r)"

definition Opt :: "regex \<Rightarrow> regex" where
  "Opt r = Alt r Eps"

text \<open>An exact code unit, and a code unit under the flag \<open>i\<close> (for an ASCII pattern unit).\<close>

definition lit :: "char \<Rightarrow> regex" where
  "lit p = Unit (\<lambda>c. c = of_char p)"

definition asciiUpper :: "nat \<Rightarrow> nat" where
  "asciiUpper c = (if 97 \<le> c \<and> c \<le> 122 then c - 32 else c)"

definition liti :: "char \<Rightarrow> regex" where
  "liti p = Unit (\<lambda>c. c < 128 \<and> asciiUpper c = asciiUpper (of_char p))"

fun wordi :: "string \<Rightarrow> regex" where
  "wordi [] = Eps"
| "wordi [p] = liti p"
| "wordi (p # ps) = Seq (liti p) (wordi ps)"

fun alts :: "regex list \<Rightarrow> regex" where
  "alts [] = Unit (\<lambda>c. False)"
| "alts [r] = r"
| "alts (r # rs) = Alt r (alts rs)"

fun seqs :: "regex list \<Rightarrow> regex" where
  "seqs [] = Eps"
| "seqs [r] = r"
| "seqs (r # rs) = Seq r (seqs rs)"

definition digit :: regex where
  "digit = Unit isDigit"

definition space :: regex where
  "space = Unit isSpace"

section \<open>Scam detection (lib/scamDetector.ts)\<close>

record ScamAnalysis =
  is_scam :: bool
  risk_score :: int
  scam_indicators :: "jsstring list"
  recommendation :: jsstring

definition URGENCY_PATTERNS :: "jsstring list" where
  "URGENCY_PATTERNS = map str
    [''account blocked'', ''account suspended'', ''act now'', ''act immediately'',
     ''verify immediately'', ''urgent action required'', ''immediate action'',
     ''your account will be'', ''within 24 hours'', ''within 48 hours'', ''limited time'',
     ''expires today'', ''final notice'', ''last warning'', ''failure to respond'',
     ''avoid suspension'', ''prevent closure'']"

definition SENSITIVE_INFO_PATTERNS :: "jsstring list" where
  "SENSITIVE_INFO_PATTERNS = map str
    [''password'', ''pin number'', ''otp'', ''one-time password'', ''social security'',
     ''bank account number'', ''credit card number'', ''cvv'', ''security code'',
     ''login credentials'', ''verify your identity'', ''confirm your details'',
     ''update your information'', ''click here to verify'', ''click the link below'']"

definition SUSPICIOUS_DOMAIN_PATTERNS :: "regex list" where
  "SUSPICIOUS_DOMAIN_PATTERNS =
    [seqs [digit, digit, digit, digit, Star digit],
     seqs [lit CHR ''-'', lit CHR ''-'', Star (lit CHR ''-'')],
     seqs [liti CHR ''.'',
           alts (map wordi [''xyz'', ''top'', ''club'', ''work'', ''click'', ''link'',
                            ''gq'', ''ml'', ''cf'', ''tk'']),
           EndAnchor],
     alts [Seq (wordi ''paypa'') (Alt (liti CHR ''l'') (liti CHR ''1'')),
           seqs [wordi ''amaz'', Alt (liti CHR ''o'') (liti CHR ''0''), liti CHR ''n''],
           seqs [liti CHR ''g'', Alt (liti CHR ''o'') (liti CHR ''0''),
                 Alt (liti CHR ''o'') (liti CHR ''0''), wordi ''gle''],
           seqs [wordi ''micr'', Alt (liti CHR ''o'') (liti CHR ''0''), liti CHR ''s'',
                 Alt (liti CHR ''o'') (liti CHR ''0''), wordi ''ft''],
           seqs [wordi ''app'', Alt (liti CHR ''l'') (liti CHR ''1''), liti CHR ''e'']]]"

text \<open>
  \<open>email.match(/@([^>]+)/)\<close>: the first \<open>@\<close> that is followed by a code unit other than
  \<open>>\<close>; the group takes every code unit up to the next \<open>>\<close> or the end.
\<close>

fun matchDomain :: "jsstring \<Rightarrow> jsstring option" where
  "matchDomain [] = None"
| "matchDomain [c] = None"
| "matchDomain (c # d # cs) =
     (if c = 64 \<and> d \<noteq> 62 then Some (takeWhile (\<lambda>x. x \<noteq> 62) (d # cs))
      else matchDomain (d # cs))"

definition extractDomain :: "jsstring \<Rightarrow> jsstring" where
  "extractDomain email = (case matchDomain email of Some m \<Rightarrow> toLowerCase m | None \<Rightarrow> [])"

definition detectUrgencyLanguage :: "jsstring \<Rightarrow> jsstring list" where
  "detectUrgencyLanguage content =
     (let lowerContent = toLowerCase content
      in filter (\<lambda>pattern. str_includes lowerContent pattern) URGENCY_PATTERNS)"

definition detectSensitiveInfoRequests :: "jsstring \<Rightarrow> jsstring list" where
  "detectSensitiveInfoRequests content =
     (let lowerContent = toLowerCase content
      in filter (\<lambda>pattern. str_includes lowerContent pattern) SENSITIVE_INFO_PATTERNS)"

text \<open>The loops of the two detectors below push one indicator at the first pattern that
  matches and stop.\<close>

definition detectSuspiciousDomain :: "jsstring \<Rightarrow> jsstring list" where
  "detectSuspiciousDomain sender =
     (let domain = extractDomain sender
      in if list_ex (\<lambda>pattern. regex_test pattern domain) SUSPICIOUS_DOMAIN_PATTERNS
         then [str ''Suspicious domain pattern detected: '' @ domain] else [])"

definition linkPatterns :: "regex list" where
  "linkPatterns =
    [seqs [wordi ''click'', Plus space, wordi ''here''],
     seqs [wordi ''verify'', Plus space, wordi ''now''],
     seqs [wordi ''login'', Plus space, wordi ''here''],
     seqs [wordi ''update'', Plus space, wordi ''account'']]"

definition detectMismatchedLinks :: "jsstring \<Rightarrow> jsstring list" where
  "detectMismatchedLinks content =
     (if list_ex (\<lambda>pattern. regex_test pattern content) linkPatterns
      then [str ''Contains suspicious call-to-action links''] else [])"

definition recommend :: "int \<Rightarrow> jsstring" where
  "recommend riskScore =
     (if riskScore \<ge> 70 then
        str ''HIGH RISK: This appears to be a scam. Do not click any links or provide personal information.''
      else if riskScore \<ge> 40 then
        str ''MEDIUM RISK: Exercise caution. Verify the sender through official channels before taking action.''
      else if riskScore \<ge> 20 then
        str ''LOW RISK: Some suspicious elements detected. Review carefully before responding.''
      else str ''This message appears to be legitimate.'')"

definition detectScam :: "jsstring \<Rightarrow> jsstring \<Rightarrow> ScamAnalysis" where
  "detectScam content sender =
     (let urgencyIndicators = detectUrgencyLanguage content;
          (indicators1, riskScore1) =
            (if length urgencyIndicators > 0
             then ([str ''Urgency language detected: ''
                      @ join (str '', '') (take 3 urgencyIndicators)],
                   min (int (length urgencyIndicators) * 15) 40)
             else ([], 0));
          sensitiveIndicators = detectSensitiveInfoRequests content;
          (indicators2, riskScore2) =
            (if length sensitiveIndicators > 0
             then (indicators1 @ [str ''Requests for sensitive information: ''
                      @ join (str '', '') (take 3 sensitiveIndicators)],
                   riskScore1 + min (int (length sensitiveIndicators) * 20) 50)
             else (indicators1, riskScore1));
          domainIndicators = detectSuspiciousDomain sender;
          (indicators3, riskScore3) =
            (if length domainIndicators > 0
             then (indicators2 @ domainIndicators, riskScore2 + 25)
             else (indicators2, riskScore2));
          linkIndicators = detectMismatchedLinks content;
          (indicators4, riskScore4) =
            (if length linkIndicators > 0
             then (indicators3 @ linkIndicators, riskScore3 + 15)
             else (indicators3, riskScore3));
          riskScore = min riskScore4 100;
          isScam = (riskScore \<ge> 70)
      in \<lparr> is_scam = isScam, risk_score = riskScore, scam_indicators = indicators4,
            recommendation = recommend riskScore \<rparr>)"

section \<open>Transactional e-mail classification (lib/gmail)\<close>

record AttachmentInfo =
  filename :: jsstring
  mimeType :: jsstring
  size_bytes :: int

record EmailContent =
  email_id :: jsstring
  email_from :: jsstring
  email_to :: jsstring
  subject :: jsstring
  body :: jsstring
  email_date :: jsstring
  attachments :: "AttachmentInfo list"

definition TRANSACTIONAL_KEYWORDS :: "jsstring list" where
  "TRANSACTIONAL_KEYWORDS = map str
    [''invoice'', ''payment'', ''bill'', ''receipt'', ''transaction'', ''charge'',
     ''amount due'', ''balance'', ''statement'', ''pay now'', ''payment due'',
     ''order confirmation'', ''order #'', ''shipping'', ''delivery'', ''tracking'',
     ''account statement'', ''subscription'', ''renewal'', ''expiring'', ''due date'',
     ''bank'', ''credit card'', ''transfer'', ''deposit'', ''tuition'', ''fee'',
     ''warranty'', ''appointment'', ''booking'', ''reservation'']"

definition PROMOTIONAL_KEYWORDS :: "jsstring list" where
  "PROMOTIONAL_KEYWORDS = map str
    [''unsubscribe'', ''newsletter'', ''promotion'', ''sale'', ''discount'',
     ''offer'', ''deal'', ''limited time'', ''exclusive'', ''free shipping'',
     ''shop now'', ''buy now'', ''save'', ''% off'', ''coupon'']"

text \<open>The class \<open>[\d,]\<close>, and the number shape \<open>[\d,]+\.?\d*\<close> shared by the three
  alternatives of the amount pattern.\<close>

definition digitOrComma :: regex where
  "digitOrComma = Unit (\<lambda>c. isDigit c \<or> c = 44)"

definition numberShape :: regex where
  "numberShape = seqs [Plus digitOrComma, Opt (lit CHR ''.''), Star digit]"

text \<open>\<open>/\$[\d,]+\.?\d*|\R[\d,]+\.?\d*|[\d,]+\.?\d*\s*(USD|INR|EUR|GBP)/i\<close>, where
  \<open>R\<close> stands for the rupee sign U+20B9 (code unit 8377).\<close>

definition amountPattern :: regex where
  "amountPattern =
     alts [Seq (lit CHR ''$'') numberShape,
           Seq (Unit (\<lambda>c. c = 8377)) numberShape,
           seqs [numberShape, Star space,
                 alts (map wordi [''USD'', ''INR'', ''EUR'', ''GBP''])]]"

text \<open>\<open>/\d{1,2}[\/\-]\d{1,2}[\/\-]\d{2,4}|due\s+(by|on|date)/i\<close>\<close>

definition slashOrDash :: regex where
  "slashOrDash = Unit (\<lambda>c. c = 47 \<or> c = 45)"

definition datePattern :: regex where
  "datePattern =
     alts [seqs [digit, Opt digit, slashOrDash, digit, Opt digit, slashOrDash,
                 digit, digit, Opt digit, Opt digit],
           seqs [wordi ''due'', Plus space, alts (map wordi [''by'', ''on'', ''date''])]]"

text \<open>\<open>/order\s*#?\s*\d+|invoice\s*#?\s*\d+|confirmation\s*#?\s*\d+/i\<close>\<close>

definition numberAfter :: "string \<Rightarrow> regex" where
  "numberAfter w = seqs [wordi w, Star space, Opt (lit CHR ''#''), Star space, Plus digit]"

definition orderNumberPattern :: regex where
  "orderNumberPattern = alts (map numberAfter [''order'', ''invoice'', ''confirmation''])"

definition keywordScore :: "jsstring list \<Rightarrow> jsstring \<Rightarrow> int" where
  "keywordScore keywords content =
     foldl (\<lambda>score keyword. if str_includes content (toLowerCase keyword) then score + 1 else score)
       0 keywords"

definition isTransactionalEmail :: "EmailContent \<Rightarrow> bool" where
  "isTransactionalEmail email =
     (let content = toLowerCase (subject email @ str '' '' @ body email);
          promotionalScore = keywordScore PROMOTIONAL_KEYWORDS content
      in if promotionalScore \<ge> 3 then False
         else
           (let transactionalScore = keywordScore TRANSACTIONAL_KEYWORDS content;
                hasAmount = regex_test amountPattern content;
                hasDate = regex_test datePattern content;
                hasOrderNumber = regex_test orderNumberPattern content;
                score1 = transactionalScore;
                score2 = (if hasAmount then score1 + 2 else score1);
                score3 = (if hasDate then score2 + 2 else score2);
                score4 = (if hasOrderNumber then score3 + 3 else score3)
            in score4 \<ge> 3))"

text \<open>The number of promotional keywords that occur in a text, counted as a list.\<close>

definition promotionalCount :: "jsstring \<Rightarrow> nat" where
  "promotionalCount content =
     length (filter (\<lambda>keyword. str_includes content keyword) PROMOTIONAL_KEYWORDS)"

section \<open>Folder names (stores/itemsStore.ts)\<close>

datatype ItemCategory = Finance | Education | Shopping | Health | Career | Other

text \<open>The keyword table in the order of its entries, which is the order of the loop.\<close>

definition documentFolderMap :: "(jsstring \<times> jsstring) list" where
  "documentFolderMap = map (\<lambda>(k, v). (str k, str v))
    [(''driving licence'', ''Driving Licence''),
     (''driving license'', ''Driving Licence''),
     (''learner'' @ [CHR 0x27] @ ''s licence'', ''Driving Licence''),
     (''pan card'', ''PAN Card''),
     (''permanent account'', ''PAN Card''),
     (''aadhaar'', ''Aadhaar Card''),
     (''aadhar'', ''Aadhaar Card''),
     (''passport'', ''Passport''),
     (''voter id'', ''Voter ID''),
     (''election'', ''Voter ID''),
     (''vehicle rc'', ''Vehicle RC''),
     (''registration certificate'', ''Vehicle RC''),
     (''credit card'', ''Credit Cards''),
     (''debit card'', ''Bank Cards''),
     (''bank statement'', ''Bank Statements''),
     (''electricity bill'', ''Utility Bills''),
     (''water bill'', ''Utility Bills''),
     (''gas bill'', ''Utility Bills''),
     (''phone bill'', ''Utility Bills''),
     (''mobile bill'', ''Utility Bills''),
     (''internet bill'', ''Utility Bills''),
     (''insurance'', ''Insurance''),
     (''policy'', ''Insurance''),
     (''medical'', ''Medical Records''),
     (''hospital'', ''Medical Records''),
     (''prescription'', ''Medical Records''),
     (''invoice'', ''Invoices & Receipts''),
     (''receipt'', ''Invoices & Receipts''),
     (''certificate'', ''Certificates''),
     (''marksheet'', ''Education''),
     (''degree'', ''Education''),
     (''salary slip'', ''Salary & Income''),
     (''payslip'', ''Salary & Income''),
     (''tax'', ''Tax Documents''),
     (''itr'', ''Tax Documents''),
     (''form 16'', ''Tax Documents'')]"

fun categoryFolderMap :: "ItemCategory \<Rightarrow> jsstring" where
  "categoryFolderMap Finance = str ''Finance Documents''"
| "categoryFolderMap Health = str ''Medical Records''"
| "categoryFolderMap Shopping = str ''Shopping & Orders''"
| "categoryFolderMap Education = str ''Education''"
| "categoryFolderMap Career = str ''Career & Work''"
| "categoryFolderMap Other = str ''Other Documents''"

text \<open>The loop over the entries: the folder of the first keyword that occurs in the title.
  The category table has an entry for each of the six categories, so the final
  \<open>|| 'Other Documents'\<close> of the source is never taken for a category of the type.\<close>

fun firstKeywordFolder :: "(jsstring \<times> jsstring) list \<Rightarrow> jsstring \<Rightarrow> jsstring option" where
  "firstKeywordFolder [] titleLower = None"
| "firstKeywordFolder ((keyword, folderName) # entries) titleLower =
     (if str_includes titleLower keyword then Some folderName
      else firstKeywordFolder entries titleLower)"

definition determineFolderName :: "jsstring \<Rightarrow> ItemCategory \<Rightarrow> jsstring" where
  "determineFolderName title category =
     (let titleLower = toLowerCase title
      in case firstKeywordFolder documentFolderMap titleLower of
           Some folderName \<Rightarrow> folderName
         | None \<Rightarrow> categoryFolderMap category)"

section \<open>Validation of the analysis payload (lib/ocr.ts)\<close>

text \<open>
  A parsed JSON value. An object is the list of its properties, each name once; reading a
  property that the object does not have gives \<open>undefined\<close>, modelled as \<open>None\<close>,
  and so does reading one of the validator's property names from an array.
\<close>

datatype json =
    JNull
  | JBool bool
  | JNumber real
  | JString jsstring
  | JArray "json list"
  | JObject "(jsstring \<times> json) list"

fun getProp :: "json \<Rightarrow> jsstring \<Rightarrow> json option" where
  "getProp (JObject props) name = map_of props name"
| "getProp v name = None"

text \<open>\<open>typeof v === 'object' && v !== null\<close>: objects and arrays.\<close>

fun isObject :: "json \<Rightarrow> bool" where
  "isObject (JObject props) = True"
| "isObject (JArray xs) = True"
| "isObject v = False"

text \<open>A thrown error: its message and, for errors of the store, its code.\<close>

datatype error = Error (message: jsstring) (code: "jsstring option")

record DocumentAnalysis =
  title :: jsstring
  amount :: "real option"
  due_date :: "jsstring option"
  category :: ItemCategory
  summary_bullets :: "jsstring list"
  analysis_is_scam :: bool

definition VALID_CATEGORIES :: "ItemCategory list" where
  "VALID_CATEGORIES = [Finance, Education, Shopping, Health, Career, Other]"

fun categoryName :: "ItemCategory \<Rightarrow> jsstring" where
  "categoryName Finance = str ''Finance''"
| "categoryName Education = str ''Education''"
| "categoryName Shopping = str ''Shopping''"
| "categoryName Health = str ''Health''"
| "categoryName Career = str ''Career''"
| "categoryName Other = str ''Other''"

text \<open>
  The date arithmetic of the runtime is taken as two parameters: \<open>parseDate s\<close> is the
  time value of \<open>new Date(s)\<close> in milliseconds, \<open>None\<close> when the date is invalid
  (\<open>getTime()\<close> is NaN), and \<open>fullYear t\<close> is \<open>getFullYear()\<close> of the time value
  \<open>t\<close>, the year in the local time zone.
\<close>

definition validDueDate :: "(jsstring \<Rightarrow> int option) \<Rightarrow> (int \<Rightarrow> int) \<Rightarrow> json option \<Rightarrow> jsstring option" where
  "validDueDate parseDate fullYear dueDate =
     (case dueDate of
        Some JNull \<Rightarrow> None
      | Some (JString s) \<Rightarrow>
          (case parseDate s of
             None \<Rightarrow> None
           | Some parsedDate \<Rightarrow>
               (let year = fullYear parsedDate
                in if year < 2000 \<or> year > 2100 then None else Some s))
      | _ \<Rightarrow> None)"

fun stringEntries :: "json list \<Rightarrow> jsstring list" where
  "stringEntries [] = []"
| "stringEntries (JString s # xs) = s # stringEntries xs"
| "stringEntries (v # xs) = stringEntries xs"

text \<open>The blocks of the validator, one per field, in the order of the source.\<close>

definition validAmount :: "json option \<Rightarrow> real option" where
  "validAmount v = (case v of Some (JNumber n) \<Rightarrow> Some n | _ \<Rightarrow> None)"

definition validCategory :: "json option \<Rightarrow> ItemCategory" where
  "validCategory v =
     (case v of
        Some (JString c) \<Rightarrow>
          (case find (\<lambda>k. categoryName k = c) VALID_CATEGORIES of
             Some k \<Rightarrow> k
           | None \<Rightarrow> Other)
      | _ \<Rightarrow> Other)"

definition validSummaryBullets :: "json option \<Rightarrow> jsstring list" where
  "validSummaryBullets v =
     (let summaryBullets = (case v of Some (JArray xs) \<Rightarrow> stringEntries xs | _ \<Rightarrow> [])
      in if length summaryBullets = 0 then [str ''Document scanned successfully'']
         else summaryBullets)"

definition validIsScam :: "json option \<Rightarrow> bool" where
  "validIsScam v = (case v of Some (JBool b) \<Rightarrow> b | _ \<Rightarrow> False)"

definition validateDocumentAnalysis ::
  "(jsstring \<Rightarrow> int option) \<Rightarrow> (int \<Rightarrow> int) \<Rightarrow> json \<Rightarrow> error + DocumentAnalysis" where
  "validateDocumentAnalysis parseDate fullYear response =
     (if \<not> isObject response then Inl (Error (str ''Invalid AI response: not an object'') None)
      else
        (case getProp response (str ''title'') of
           Some (JString t) \<Rightarrow>
             if trim t = [] then
               Inl (Error (str ''Invalid AI response: title must be a non-empty string'') None)
             else
               Inr \<lparr> title = t,
                     amount = validAmount (getProp response (str ''amount'')),
                     due_date = validDueDate parseDate fullYear
                                  (getProp response (str ''due_date'')),
                     category = validCategory (getProp response (str ''category'')),
                     summary_bullets =
                       validSummaryBullets (getProp response (str ''summary_bullets'')),
                     analysis_is_scam = validIsScam (getProp response (str ''is_scam'')) \<rparr>
         | _ \<Rightarrow> Inl (Error (str ''Invalid AI response: title must be a non-empty string'') None)))"

text \<open>
  An instance of the two date parameters, for strings of the form \<open>YYYY-MM-DD\<close>: such
  a string denotes midnight UTC of that day, and the year is read in a zone whose offset
  from UTC is \<open>tz\<close> minutes. The other forms of date that the runtime accepts are not
  covered by this instance, which is applied to days of the calendar in that form only.
\<close>

definition daysFromCivil :: "int \<Rightarrow> int \<Rightarrow> int \<Rightarrow> int" where
  "daysFromCivil y m d =
     (let y' = (if m \<le> 2 then y - 1 else y);
          era = y' div 400;
          yoe = y' - era * 400;
          doy = (153 * (if m > 2 then m - 3 else m + 9) + 2) div 5 + d - 1;
          doe = yoe * 365 + yoe div 4 - yoe div 100 + doy
      in era * 146097 + doe - 719468)"

definition yearFromDays :: "int \<Rightarrow> int" where
  "yearFromDays z =
     (let z' = z + 719468;
          era = z' div 146097;
          doe = z' - era * 146097;
          yoe = (doe - doe div 1460 + doe div 36524 - doe div 146096) div 365;
          doy = doe - (365 * yoe + yoe div 4 - yoe div 100);
          mp = (5 * doy + 2) div 153
      in yoe + era * 400 + (if mp < 10 then 0 else 1))"

definition digitsValue :: "jsstring \<Rightarrow> int option" where
  "digitsValue ds =
     (if ds \<noteq> [] \<and> list_all isDigit ds
      then Some (foldl (\<lambda>acc c. acc * 10 + (int c - 48)) 0 ds) else None)"

definition daysInMonth :: "int \<Rightarrow> int \<Rightarrow> int" where
  "daysInMonth y m =
     (if m = 2 then (if y mod 4 = 0 \<and> (y mod 100 \<noteq> 0 \<or> y mod 400 = 0) then 29 else 28)
      else if m \<in> {4, 6, 9, 11} then 30 else 31)"

definition isoDateParse :: "jsstring \<Rightarrow> int option" where
  "isoDateParse s =
     (if length s = 10 \<and> s ! 4 = 45 \<and> s ! 7 = 45 then
        (case (digitsValue (take 4 s), digitsValue (take 2 (drop 5 s)),
               digitsValue (drop 8 s)) of
           (Some y, Some m, Some d) \<Rightarrow>
             if 1 \<le> m \<and> m \<le> 12 \<and> 1 \<le> d \<and> d \<le> daysInMonth y m
             then Some (daysFromCivil y m d * 86400000) else None
         | _ \<Rightarrow> None)
      else None)"

definition zoneFullYear :: "int \<Rightarrow> int \<Rightarrow> int" where
  "zoneFullYear tz t = yearFromDays ((t + tz * 60000) div 86400000)"

text \<open>What the validation of a payload is compared with: the title is absent, not a string,
  or empty once trimmed; and the shapes of the optional fields.\<close>

definition titleMissingOrEmpty :: "json \<Rightarrow> bool" where
  "titleMissingOrEmpty response =
     (case getProp response (str ''title'') of
        Some (JString t) \<Rightarrow> trim t = []
      | _ \<Rightarrow> True)"






text \<open>Sample values used to exercise the classifier and the validator.\<close>

definition promoMail :: EmailContent where
  "promoMail = \<lparr> email_id = str ''m1'', email_from = str ''billing@shop.example'',
      email_to = str ''me@example.org'',
      subject = str ''Invoice #4821 - Payment Due'',
      body = str ''Big sale: discount offer. Pay $150.00, due by 01/15/2026'',
      email_date = str ''Mon, 5 Jan 2026'', attachments = [] \<rparr>"

definition billPayload :: "jsstring \<Rightarrow> json" where
  "billPayload d = JObject [(str ''title'', JString (str ''Water Bill'')),
                            (str ''due_date'', JString d)]"



section \<open>Records of the application (types)\<close>

text \<open>
  The fields of an item, a folder and an alert share names in the source (\<open>id\<close>,
  \<open>user_id\<close>, \<open>created_at\<close>, ...); here each field carries the initials of its record.
  Time stamps (\<open>trigger_date\<close>, \<open>created_at\<close>) are held as the time value in
  milliseconds that the stored ISO string denotes.
\<close>

datatype ItemStatus = new | paid | archived

datatype SourceType = from_scan | from_email | from_manual

datatype GuardianAlertType = deadline_7day | deadline_1day | overdue | scam_warning

record Item =
  it_id :: jsstring
  it_user_id :: jsstring
  it_title :: jsstring
  it_category :: ItemCategory
  it_amount :: "real option"
  it_due_date :: "jsstring option"
  it_summary :: "jsstring list"
  it_status :: ItemStatus
  it_image_url :: "jsstring option"
  it_is_scam :: bool
  it_created_at :: int
  it_folder_id :: "jsstring option"
  it_source_type :: SourceType
  it_email_id :: "jsstring option"
  it_email_account_id :: "jsstring option"
  it_life_stack_id :: "jsstring option"
  it_risk_score :: int

record VaultFolder =
  vf_id :: jsstring
  vf_name :: jsstring
  vf_user_id :: jsstring
  vf_created_at :: int

record GuardianAlert =
  ga_id :: jsstring
  ga_user_id :: jsstring
  ga_item_id :: jsstring
  ga_alert_type :: GuardianAlertType
  ga_trigger_date :: int
  ga_is_dismissed :: bool
  ga_is_sent :: bool
  ga_created_at :: int


section \<open>Scanning a document (stores/itemsStore.ts)\<close>

record OCRResult =
  fullText :: jsstring
  lines :: "jsstring list"
  confidence :: real

record ScanResult =
  analysis :: DocumentAnalysis
  imageUrl :: jsstring
  autoAssignedFolderId :: "jsstring option"
  autoAssignedFolderName :: "jsstring option"
  alertCreated :: bool
  alertType :: "GuardianAlertType option"

record ItemsState =
  items :: "Item list"
  upcomingItems :: "Item list"
  folders :: "VaultFolder list"
  selectedItem :: "Item option"
  selectedFolder :: "VaultFolder option"
  isLoading :: bool
  isScanning :: bool
  scanProgress :: jsstring
  error :: "jsstring option"

text \<open>
  What the scan calls outside the store: text extraction, the two analysis calls, the
  upload of the image for the vision path (\<open>Some url\<close> when the image was fetched and
  uploaded and the answer carried a URL, \<open>None\<close> when any step of that block failed), the
  creation of a folder in the backend, and the wording of an error for the user.
\<close>

record ScanEnv =
  extractTextFromImage :: "jsstring \<Rightarrow> error + OCRResult"
  analyzeDocumentText :: "jsstring \<Rightarrow> error + DocumentAnalysis"
  uploadForVision :: "jsstring \<Rightarrow> jsstring option"
  analyzeDocument :: "jsstring \<Rightarrow> bool \<Rightarrow> error + DocumentAnalysis"
  createFolder :: "jsstring \<Rightarrow> jsstring \<Rightarrow> error + VaultFolder"
  getUserFriendlyMessage :: "error \<Rightarrow> jsstring"

definition addFolder ::
  "ScanEnv \<Rightarrow> jsstring \<Rightarrow> jsstring \<Rightarrow> ItemsState \<Rightarrow> ItemsState \<times> (error + VaultFolder)" where
  "addFolder env name userId st =
     (case createFolder env name userId of
        Inl e \<Rightarrow> (st, Inl e)
      | Inr newFolder \<Rightarrow> (st\<lparr> folders := folders st @ [newFolder] \<rparr>, Inr newFolder))"

text \<open>\<open>x || null\<close> for a string: the empty string counts as absent.\<close>

definition orNull :: "jsstring option \<Rightarrow> jsstring option" where
  "orNull v = (case v of Some s \<Rightarrow> if s = [] then None else Some s | None \<Rightarrow> None)"

definition analyzeFallback :: "ScanEnv \<Rightarrow> jsstring \<Rightarrow> error + DocumentAnalysis" where
  "analyzeFallback env imageUri =
     (case uploadForVision env imageUri of
        Some publicImageUrl \<Rightarrow>
          if publicImageUrl \<noteq> [] then analyzeDocument env publicImageUrl False
          else analyzeDocument env imageUri True
      | None \<Rightarrow> analyzeDocument env imageUri True)"

definition scanDocument ::
  "ScanEnv \<Rightarrow> jsstring \<Rightarrow> jsstring \<Rightarrow> ItemsState \<Rightarrow> ItemsState \<times> (error + ScanResult)" where
  "scanDocument env imageUri userId st0 =
     (let st1 = st0\<lparr> isScanning := True, scanProgress := str ''Extracting text...'',
                      error := None \<rparr>;
          folders0 = folders st1;
          ocrResult = (case extractTextFromImage env imageUri of
                         Inr r \<Rightarrow> Some r
                       | Inl ocrError \<Rightarrow> None);
          st2 = st1\<lparr> scanProgress := str ''AI analyzing...'' \<rparr>;
          analysed = (case ocrResult of
                        Some r \<Rightarrow>
                          if length (fullText r) > 10 then analyzeDocumentText env (fullText r)
                          else analyzeFallback env imageUri
                      | None \<Rightarrow> analyzeFallback env imageUri)
      in case analysed of
           Inl e \<Rightarrow>
             (st2\<lparr> isScanning := False, scanProgress := [],
                    error := Some (getUserFriendlyMessage env e) \<rparr>, Inl e)
         | Inr a \<Rightarrow>
             (let st3 = st2\<lparr> scanProgress := str ''Organizing...'' \<rparr>;
                  folderName = determineFolderName (title a) (category a);
                  found = find (\<lambda>f. toLowerCase (vf_name f) = toLowerCase folderName) folders0;
                  (st4, targetFolder) =
                    (if found = None \<and> folderName \<noteq> [] then
                       (case addFolder env folderName userId st3 of
                          (s, Inr f) \<Rightarrow> (s, Some f)
                        | (s, Inl e) \<Rightarrow> (s, None))
                     else (st3, found));
                  st5 = st4\<lparr> isScanning := False, scanProgress := [] \<rparr>
              in (st5,
                  Inr \<lparr> analysis = a, imageUrl = imageUri,
                        autoAssignedFolderId = orNull (map_option vf_id targetFolder),
                        autoAssignedFolderName = orNull (map_option vf_name targetFolder),
                        alertCreated = False, alertType = None \<rparr>)))"

section \<open>The store behind the application\<close>

text \<open>
  The tables of items and alerts. \<open>lib/localStorage\<close> keeps them under two keys of the
  storage of the device, \<open>lib/supabase\<close> in the remote database; both are modelled on
  the same two tables. What a call does besides its effect on the tables is given from
  outside: whether a read or a write of the storage fails, and the identifier and creation
  time given to a new alert. A read returns the rows of the user in the order of the table.
  An action of a store is modelled as one step: no other action runs between its calls.
\<close>

record Store =
  items_table :: "Item list"
  alerts_table :: "GuardianAlert list"

text \<open>
  \<open>readItems\<close> and \<open>readAlerts\<close>: the error with which the read of the items or of the
  alerts fails, if it does. \<open>insertAlert\<close>, by the item of the new alert: the error with
  which the write fails, or the identifier and creation time of the new alert;
  \<open>readAlertsForInsert\<close>: the failure of the read of the stored list that precedes that
  write. \<open>dismissRow\<close>, by alert, and \<open>writeStatus\<close>, by item: the failure of the update.
\<close>

record Outcomes =
  readItems :: "error option"
  insertAlert :: "jsstring \<Rightarrow> error + (jsstring \<times> int)"
  readAlertsForInsert :: "jsstring \<Rightarrow> error option"
  readAlerts :: "error option"
  dismissRow :: "jsstring \<Rightarrow> error option"
  writeStatus :: "jsstring \<Rightarrow> error option"

record GuardianState =
  alerts :: "GuardianAlert list"
  unreadCount :: int
  isMonitoring :: bool
  alertsLoading :: bool
  alertsError :: "jsstring option"

record App =
  itemsState :: ItemsState
  guardian :: GuardianState
  store :: Store









definition dismissGuardianAlert :: "Outcomes \<Rightarrow> jsstring \<Rightarrow> Store \<Rightarrow> Store \<times> (error + unit)" where
  "dismissGuardianAlert oc alertId s =
     (case dismissRow oc alertId of
        Some e \<Rightarrow> (s, Inl e)
      | None \<Rightarrow>
          (s\<lparr> alerts_table :=
                 map (\<lambda>a. if ga_id a = alertId then a\<lparr> ga_is_dismissed := True \<rparr> else a)
                   (alerts_table s) \<rparr>, Inr ()))"

definition updateItemStatus ::
  "Outcomes \<Rightarrow> jsstring \<Rightarrow> ItemStatus \<Rightarrow> Store \<Rightarrow> Store \<times> (error + unit)" where
  "updateItemStatus oc itemId status s =
     (case writeStatus oc itemId of
        Some e \<Rightarrow> (s, Inl e)
      | None \<Rightarrow>
          (s\<lparr> items_table :=
                 map (\<lambda>i. if it_id i = itemId then i\<lparr> it_status := status \<rparr> else i)
                   (items_table s) \<rparr>, Inr ()))"

section \<open>Guardian alerts (stores/guardianStore.ts)\<close>







definition dismissAlert :: "Outcomes \<Rightarrow> jsstring \<Rightarrow> App \<Rightarrow> App" where
  "dismissAlert oc alertId app =
     (case dismissGuardianAlert oc alertId (store app) of
        (s, Inr u) \<Rightarrow>
          app\<lparr> store := s,
               guardian := (guardian app)\<lparr>
                 alerts := map (\<lambda>a. if ga_id a = alertId then a\<lparr> ga_is_dismissed := True \<rparr>
                                     else a) (alerts (guardian app)),
                 unreadCount := max 0 (unreadCount (guardian app) - 1) \<rparr> \<rparr>
      | (s, Inl e) \<Rightarrow>
          app\<lparr> guardian := (guardian app)\<lparr> alertsError := Some (message e) \<rparr> \<rparr>)"

definition dismissAlertsForItem :: "Outcomes \<Rightarrow> jsstring \<Rightarrow> App \<Rightarrow> App" where
  "dismissAlertsForItem oc itemId app =
     (let itemAlerts = filter (\<lambda>a. ga_item_id a = itemId \<and> \<not> ga_is_dismissed a)
                         (alerts (guardian app))
      in foldl (\<lambda>st a. dismissAlert oc (ga_id a) st) app itemAlerts)"

section \<open>Marking an item paid (stores/itemsStore.ts)\<close>

definition markAsPaid :: "Outcomes \<Rightarrow> jsstring \<Rightarrow> App \<Rightarrow> App \<times> (error + unit)" where
  "markAsPaid oc itemId app =
     (case updateItemStatus oc itemId paid (store app) of
        (s, Inl e) \<Rightarrow> (app, Inl e)
      | (s, Inr u) \<Rightarrow>
          (app\<lparr> store := s,
                itemsState := (itemsState app)\<lparr>
                  items := map (\<lambda>item. if it_id item = itemId then item\<lparr> it_status := paid \<rparr>
                                         else item) (items (itemsState app)),
                  upcomingItems := filter (\<lambda>item. it_id item \<noteq> itemId)
                                     (upcomingItems (itemsState app)) \<rparr> \<rparr>, Inr ()))"

text \<open>The alerts of an item that are not dismissed, in a list of alerts.\<close>

definition activeAlerts :: "jsstring \<Rightarrow> GuardianAlert list \<Rightarrow> GuardianAlert list" where
  "activeAlerts itemId as = filter (\<lambda>a. ga_item_id a = itemId \<and> \<not> ga_is_dismissed a) as"

text \<open>Sample values used to exercise the store and the scheduler: one unpaid bill of one
  user, no alert yet, every call of the store succeeding, and noon UTC of 2 November 2026
  as the current time.\<close>

definition billItem :: "jsstring \<Rightarrow> Item" where
  "billItem d = \<lparr> it_id = str ''item-1'', it_user_id = str ''user-1'',
      it_title = str ''Electricity Bill'', it_category = Finance, it_amount = Some 150,
      it_due_date = Some d, it_summary = [], it_status = new, it_image_url = None,
      it_is_scam = False, it_created_at = 1793577600000, it_folder_id = None,
      it_source_type = from_scan, it_email_id = None, it_email_account_id = None,
      it_life_stack_id = None, it_risk_score = 0 \<rparr>"

definition initialItemsState :: ItemsState where
  "initialItemsState = \<lparr> items = [], upcomingItems = [], folders = [], selectedItem = None,
      selectedFolder = None, isLoading = False, isScanning = False, scanProgress = [],
      error = None \<rparr>"

definition initialGuardianState :: GuardianState where
  "initialGuardianState = \<lparr> alerts = [], unreadCount = 0, isMonitoring = False,
      alertsLoading = False, alertsError = None \<rparr>"


definition allSucceed :: Outcomes where
  "allSucceed = \<lparr> readItems = None,
      insertAlert = (\<lambda>itemId. Inr (str ''alert-of-'' @ itemId, 1793620800000)),
      readAlertsForInsert = (\<lambda>itemId. None), readAlerts = None, dismissRow = (\<lambda>alertId. None), writeStatus = (\<lambda>itemId. None) \<rparr>"





text \<open>The bill of the samples with an alert that is not dismissed, and an alert of another
  item, both in the store and in memory.\<close>

definition sampleAlert :: "string \<Rightarrow> string \<Rightarrow> GuardianAlert" where
  "sampleAlert alertId itemId = \<lparr> ga_id = str alertId, ga_user_id = str ''user-1'',
      ga_item_id = str itemId, ga_alert_type = deadline_7day,
      ga_trigger_date = 1793836800000, ga_is_dismissed = False, ga_is_sent = False,
      ga_created_at = 1793620800000 \<rparr>"

definition alertedApp :: App where
  "alertedApp = \<lparr> itemsState = initialItemsState\<lparr> items := [billItem (str ''2026-11-05'')] \<rparr>,
      guardian = initialGuardianState\<lparr>
        alerts := [sampleAlert ''a1'' ''item-1'', sampleAlert ''a3'' ''item-2''],
        unreadCount := 2 \<rparr>,
      store = \<lparr> items_table = [billItem (str ''2026-11-05'')],
                alerts_table = [sampleAlert ''a1'' ''item-1'', sampleAlert ''a3'' ''item-2''] \<rparr> \<rparr>"

section \<open>The request throttle (class RateLimiter of lib/ocr.ts)\<close>

text \<open>
  An entry of the queue: the request and the promise that \<open>queueRequest\<close> returned to the
  caller, whose \<open>resolve\<close> and \<open>reject\<close> the entry holds. \<open>request item t\<close> is what
  the promise of the request settles to when the request is started at time \<open>t\<close>: a value,
  or the error it rejects with (or throws).
\<close>

record 'v QueueItem =
  request :: "int \<Rightarrow> error + 'v"
  promise :: nat

text \<open>
  The worker \<open>processQueue\<close> is idle, or suspended at one of its two \<open>await\<close>: on the
  timer of the delay before an entry, or on the request of an entry that it has started.
\<close>

datatype 'v worker = Idle | Delaying "'v QueueItem" | Running "'v QueueItem" "error + 'v"

text \<open>
  The fields of the class and the state of the worker. Two logs record what can be
  observed from outside: \<open>dispatched\<close>, the entries whose request was started, with the
  time of the start, and \<open>settled\<close>, the promises of the callers with what \<open>resolve\<close> or
  \<open>reject\<close> gave them, both in the order of the events.
\<close>

record 'v RateLimiter =
  queue :: "'v QueueItem list"
  isProcessing :: bool
  lastRequestTime :: int
  worker :: "'v worker"
  dispatched :: "('v QueueItem \<times> int) list"
  settled :: "(nat \<times> (error + 'v)) list"

definition minDelayMs :: int where
  "minDelayMs = 2000"

definition newRateLimiter :: "'v RateLimiter" where
  "newRateLimiter = \<lparr> queue = [], isProcessing = False, lastRequestTime = 0, worker = Idle,
      dispatched = [], settled = [] \<rparr>"

text \<open>The \<open>try\<close> block up to its \<open>await\<close>: the time of the start is stored and the
  request is called.\<close>

definition startRequest :: "int \<Rightarrow> 'v QueueItem \<Rightarrow> 'v RateLimiter \<Rightarrow> 'v RateLimiter" where
  "startRequest nowTime item rl =
     rl\<lparr> lastRequestTime := nowTime, worker := Running item (request item nowTime),
          dispatched := dispatched rl @ [(item, nowTime)] \<rparr>"

text \<open>The head of the \<open>while\<close> loop, up to the next \<open>await\<close> or to the end of
  \<open>processQueue\<close>.\<close>

definition loopHead :: "int \<Rightarrow> 'v RateLimiter \<Rightarrow> 'v RateLimiter" where
  "loopHead nowTime rl =
     (case queue rl of
        [] \<Rightarrow> rl\<lparr> isProcessing := False, worker := Idle \<rparr>
      | item # rest \<Rightarrow>
          (let rl1 = rl\<lparr> queue := rest \<rparr>;
               timeSinceLastRequest = nowTime - lastRequestTime rl1;
               delayNeeded = max 0 (minDelayMs - timeSinceLastRequest)
           in if delayNeeded > 0 then rl1\<lparr> worker := Delaying item \<rparr>
              else startRequest nowTime item rl1))"

definition processQueue :: "int \<Rightarrow> 'v RateLimiter \<Rightarrow> 'v RateLimiter" where
  "processQueue nowTime rl =
     (if isProcessing rl \<or> length (queue rl) = 0 then rl
      else loopHead nowTime (rl\<lparr> isProcessing := True \<rparr>))"

definition queueRequest :: "'v QueueItem \<Rightarrow> int \<Rightarrow> 'v RateLimiter \<Rightarrow> 'v RateLimiter" where
  "queueRequest item nowTime rl = processQueue nowTime (rl\<lparr> queue := queue rl @ [item] \<rparr>)"

text \<open>
  The events of the single-threaded event loop that concern the throttle, each with the
  reading of the clock at that moment: a caller submits a request, the timer of the delay
  fires, the request that is running settles. Between two events nothing else touches the
  throttle.
\<close>

datatype 'v event = Submit "'v QueueItem" int | TimerFires int | RequestSettles int

fun step :: "'v RateLimiter \<Rightarrow> 'v event \<Rightarrow> 'v RateLimiter" where
  "step rl (Submit item nowTime) = queueRequest item nowTime rl"
| "step rl (TimerFires nowTime) =
     (case worker rl of
        Delaying item \<Rightarrow> startRequest nowTime item rl
      | _ \<Rightarrow> rl)"
| "step rl (RequestSettles nowTime) =
     (case worker rl of
        Running item out \<Rightarrow>
          loopHead nowTime (rl\<lparr> settled := settled rl @ [(promise item, out)] \<rparr>)
      | _ \<Rightarrow> rl)"

definition run :: "'v event list \<Rightarrow> 'v RateLimiter" where
  "run es = foldl step newRateLimiter es"

fun submitted :: "'v event list \<Rightarrow> 'v QueueItem list" where
  "submitted [] = []"
| "submitted (Submit item nowTime # es) = item # submitted es"
| "submitted (e # es) = submitted es"

text \<open>\<open>n\<close> rounds of the worker alone, two seconds apart: the timer fires, the running
  request settles.\<close>

fun workerRounds :: "nat \<Rightarrow> int \<Rightarrow> 'v event list" where
  "workerRounds 0 nowTime = []"
| "workerRounds (Suc n) nowTime =
     TimerFires (nowTime + 2000) # RequestSettles (nowTime + 2000)
       # workerRounds n (nowTime + 2000)"

text \<open>The entries that wait: the one the worker holds, then the queue; and those among
  them whose request has not been started.\<close>

definition pendingItems :: "'v RateLimiter \<Rightarrow> 'v QueueItem list" where
  "pendingItems rl =
     (case worker rl of
        Idle \<Rightarrow> []
      | Delaying item \<Rightarrow> [item]
      | Running item out \<Rightarrow> [item]) @ queue rl"

definition notStarted :: "'v RateLimiter \<Rightarrow> 'v QueueItem list" where
  "notStarted rl = (case worker rl of Delaying item \<Rightarrow> [item] | _ \<Rightarrow> []) @ queue rl"

definition runningOutcome :: "'v RateLimiter \<Rightarrow> (nat \<times> (error + 'v)) list" where
  "runningOutcome rl =
     (case worker rl of Running item out \<Rightarrow> [(promise item, out)] | _ \<Rightarrow> [])"

text \<open>What the caller of a dispatched entry is owed: its own promise, with what its own
  request settles to when started at the time of the dispatch.\<close>

definition ownOutcome :: "'v QueueItem \<times> int \<Rightarrow> nat \<times> (error + 'v)" where
  "ownOutcome d = (promise (fst d), request (fst d) (snd d))"

text \<open>
  The state of a throttle that received the entries \<open>sub\<close>: the dispatched entries
  followed by those not started are the entries received, in their order; the log of
  settlements, followed by the request that is running, is the log of dispatches with each
  entry's own outcome; the flag \<open>isProcessing\<close> says that the worker is not idle, and an
  idle worker leaves nothing in the queue.
\<close>

definition throttleState :: "'v QueueItem list \<Rightarrow> 'v RateLimiter \<Rightarrow> bool" where
  "throttleState sub rl \<longleftrightarrow>
     sub = map fst (dispatched rl) @ notStarted rl
     \<and> map ownOutcome (dispatched rl) = settled rl @ runningOutcome rl
     \<and> (isProcessing rl \<longleftrightarrow> worker rl \<noteq> Idle)
     \<and> (worker rl = Idle \<longrightarrow> queue rl = [])"

text \<open>Sample values used to exercise the throttle: three requests, the second of which
  fails, submitted while the worker is busy, and the events that let the worker finish.\<close>

definition sampleRequest :: "nat \<Rightarrow> (error + jsstring) \<Rightarrow> jsstring QueueItem" where
  "sampleRequest p out = \<lparr> request = (\<lambda>t. out), promise = p \<rparr>"

definition sampleEvents :: "jsstring event list" where
  "sampleEvents =
     [Submit (sampleRequest 1 (Inr (str ''first''))) 5000,
      Submit (sampleRequest 2 (Inl (Error (str ''rate limit'') None))) 5001,
      RequestSettles 5100,
      Submit (sampleRequest 3 (Inr (str ''third''))) 5200,
      TimerFires 7000, RequestSettles 7100, TimerFires 9000, RequestSettles 9500]"

text \<open>Sample values used to exercise the scan: the text of a bill is extracted, the
  analysis names a due date three days ahead, and the folder is created.\<close>

definition sampleAnalysis :: DocumentAnalysis where
  "sampleAnalysis = \<lparr> title = str ''Electricity Bill - A. Kumar'', amount = Some 150,
      due_date = Some (str ''2026-11-05''), category = Finance,
      summary_bullets = [str ''Pay 150 by 5 November''], analysis_is_scam = False \<rparr>"

definition sampleEnv :: ScanEnv where
  "sampleEnv = \<lparr>
      extractTextFromImage = (\<lambda>uri. Inr \<lparr> fullText = str ''ELECTRICITY BILL DUE DATE 05-11-2026'',
                                             lines = [str ''ELECTRICITY BILL'',
                                                      str ''DUE DATE 05-11-2026''],
                                             confidence = 1 \<rparr>),
      analyzeDocumentText = (\<lambda>text. Inr sampleAnalysis),
      uploadForVision = (\<lambda>uri. None),
      analyzeDocument = (\<lambda>uri isTestMode. Inl (Error (str ''vision unavailable'') None)),
      createFolder = (\<lambda>name userId. Inr \<lparr> vf_id = str ''folder-1'', vf_name = name,
                                            vf_user_id = userId,
                                            vf_created_at = 1793620800000 \<rparr>),
      getUserFriendlyMessage = message \<rparr>"

section \<open>Properties of the scam detector\<close>

lemma lower_content_urgent:
  "toLowerCase (str ''URGENT: verify your password immediately or account suspended'')
   = str ''urgent: verify your password immediately or account suspended''"
  by (simp add: str_def toLowerCase_def lowerUnit_def)

lemma urgency_urgent:
  "detectUrgencyLanguage
     (str ''URGENT: verify your password immediately or account suspended'')
   = [str ''account suspended'']"
  unfolding detectUrgencyLanguage_def lower_content_urgent Let_def URGENCY_PATTERNS_def
  by (simp add: str_def)

lemma sensitive_urgent:
  "detectSensitiveInfoRequests
     (str ''URGENT: verify your password immediately or account suspended'')
   = [str ''password'']"
  unfolding detectSensitiveInfoRequests_def lower_content_urgent Let_def
    SENSITIVE_INFO_PATTERNS_def
  by (simp add: str_def)

lemma domain_paypa1:
  "extractDomain (str ''security@paypa1-verify.xyz'') = str ''paypa1-verify.xyz''"
  by (simp add: extractDomain_def str_def toLowerCase_def lowerUnit_def)

lemma tld_paypa1:
  "regex_test
     (seqs [liti CHR ''.'',
            alts (map wordi [''xyz'', ''top'', ''club'', ''work'', ''click'', ''link'',
                             ''gq'', ''ml'', ''cf'', ''tk'']),
            EndAnchor])
     (str ''paypa1-verify.xyz'')"
  by (simp add: str_def liti_def asciiUpper_def)

lemma suspicious_paypa1:
  "detectSuspiciousDomain (str ''security@paypa1-verify.xyz'')
   = [str ''Suspicious domain pattern detected: '' @ str ''paypa1-verify.xyz'']"
  unfolding detectSuspiciousDomain_def domain_paypa1 Let_def SUSPICIOUS_DOMAIN_PATTERNS_def
    list_ex_Nil_iff list_ex_Cons_iff
  using tld_paypa1 by simp

lemma links_urgent:
  "detectMismatchedLinks
     (str ''URGENT: verify your password immediately or account suspended'') = []"
  unfolding detectMismatchedLinks_def linkPatterns_def list_ex_Nil_iff list_ex_Cons_iff
  by (simp add: str_def liti_def asciiUpper_def Plus_def space_def isSpace_def)

lemma detectScam_urgent:
  "detectScam (str ''URGENT: verify your password immediately or account suspended'')
     (str ''security@paypa1-verify.xyz'')
   = \<lparr> is_scam = False, risk_score = 60,
       scam_indicators =
         [str ''Urgency language detected: '' @ str ''account suspended'',
          str ''Requests for sensitive information: '' @ str ''password'',
          str ''Suspicious domain pattern detected: '' @ str ''paypa1-verify.xyz''],
       recommendation = str ''MEDIUM RISK: Exercise caution. Verify the sender through official channels before taking action.'' \<rparr>"
  unfolding detectScam_def urgency_urgent sensitive_urgent suspicious_paypa1 links_urgent
  by (simp add: recommend_def)

lemma medium_risk_text:
  "str_includes (str ''MEDIUM RISK: Exercise caution. Verify the sender through official channels before taking action.'') (str ''MEDIUM RISK'')"
  by (simp add: str_def)

lemma not_high_risk_text:
  "\<not> str_includes (str ''MEDIUM RISK: Exercise caution. Verify the sender through official channels before taking action.'') (str ''HIGH RISK'')"
  by (simp add: str_def)

text \<open>
  Claim C1, as the specification states it, fails: for the content
  "URGENT: verify your password immediately or account suspended" and the sender
  "security@paypa1-verify.xyz" the risk score is not 70 or more, the verdict is not a scam
  and the recommendation does not contain "HIGH RISK".
\<close>

theorem C1_scenario_counterexample:
  "\<not> (risk_score (detectScam
          (str ''URGENT: verify your password immediately or account suspended'')
          (str ''security@paypa1-verify.xyz'')) \<ge> 70
      \<and> is_scam (detectScam
          (str ''URGENT: verify your password immediately or account suspended'')
          (str ''security@paypa1-verify.xyz'')) = True
      \<and> str_includes (recommendation (detectScam
          (str ''URGENT: verify your password immediately or account suspended'')
          (str ''security@paypa1-verify.xyz''))) (str ''HIGH RISK''))"
  by (simp add: detectScam_urgent)

text \<open>
  Claim C1, amended: for that content and sender the scam assessor finds one urgency phrase
  ("account suspended", 15 points), one sensitive-information phrase ("password", 20
  points) and a suspicious sender domain (25 points) and no call-to-action phrase; it
  returns the risk score 60, \<open>is_scam = false\<close> and a recommendation that contains
  "MEDIUM RISK" and not "HIGH RISK".
\<close>

theorem C1_scenario_medium_risk:
  "risk_score (detectScam
      (str ''URGENT: verify your password immediately or account suspended'')
      (str ''security@paypa1-verify.xyz'')) = 60
   \<and> is_scam (detectScam
      (str ''URGENT: verify your password immediately or account suspended'')
      (str ''security@paypa1-verify.xyz'')) = False
   \<and> str_includes (recommendation (detectScam
      (str ''URGENT: verify your password immediately or account suspended'')
      (str ''security@paypa1-verify.xyz''))) (str ''MEDIUM RISK'')
   \<and> \<not> str_includes (recommendation (detectScam
      (str ''URGENT: verify your password immediately or account suspended'')
      (str ''security@paypa1-verify.xyz''))) (str ''HIGH RISK'')"
  by (simp add: detectScam_urgent medium_risk_text not_high_risk_text)

text \<open>
  Claim C2: for every content and every sender the risk score of \<open>detectScam\<close> lies
  between 0 and 100, however long the input is and however often keywords repeat: it is
  the sum, cut at 100, of the urgency part (15 per matched phrase, at most 40), the
  sensitive-information part (20 per matched phrase, at most 50), 25 for a suspicious
  domain and 15 for a call-to-action phrase.
\<close>

theorem C2_risk_score_bounded:
  "0 \<le> risk_score (detectScam content sender)
   \<and> risk_score (detectScam content sender) \<le> 100
   \<and> risk_score (detectScam content sender)
       = min (min (int (length (detectUrgencyLanguage content)) * 15) 40
              + min (int (length (detectSensitiveInfoRequests content)) * 20) 50
              + (if detectSuspiciousDomain sender = [] then 0 else 25)
              + (if detectMismatchedLinks content = [] then 0 else 15)) 100"
  by (auto simp add: detectScam_def Let_def min_def split: prod.splits if_splits)

text \<open>The bound at an input with a repeated phrase and a suspicious domain.\<close>

theorem C2_risk_score_bounded_witness:
  "0 \<le> risk_score (detectScam (str ''Act now! Act now! Act now!'') (str ''a@b.xyz''))
   \<and> risk_score (detectScam (str ''Act now! Act now! Act now!'') (str ''a@b.xyz'')) \<le> 100"
  using C2_risk_score_bounded [of "str ''Act now! Act now! Act now!''" "str ''a@b.xyz''"]
  by blast

section \<open>Properties of the analysis validator\<close>








lemma trim_water_bill: "trim (str ''Water Bill'') \<noteq> []"
  by (simp add: trim_def str_def isSpace_def)





lemma billPayload_props:
  "isObject (billPayload d)"
  "\<not> titleMissingOrEmpty (billPayload d)"
  "getProp (billPayload d) (str ''due_date'') = Some (JString d)"
  by (simp_all add: billPayload_def titleMissingOrEmpty_def trim_water_bill)
     (simp_all add: str_def)

lemma parse_boundary_dates:
  "isoDateParse (str ''1999-12-31'') = Some 946598400000"
  "isoDateParse (str ''2000-01-01'') = Some 946684800000"
  "isoDateParse (str ''2100-12-31'') = Some 4133894400000"
  "isoDateParse (str ''2101-01-01'') = Some 4133980800000"
  by code_simp+

lemma year_boundary_dates:
  "zoneFullYear 330 946598400000 = 1999"
  "zoneFullYear 330 946684800000 = 2000"
  "zoneFullYear 330 4133894400000 = 2100"
  "zoneFullYear 330 4133980800000 = 2101"
  by code_simp+

text \<open>
  How the validator decides on a due date: by the year that the runtime reports for the
  parsed date in the local zone.
\<close>

lemma due_date_by_runtime_year:
  assumes "isObject response" and "\<not> titleMissingOrEmpty response"
    and "getProp response (str ''due_date'') = Some (JString s)"
    and "parseDate s = Some t"
  shows "\<exists>r. validateDocumentAnalysis parseDate fullYear response = Inr r
      \<and> due_date r = (if fullYear t < 2000 \<or> fullYear t > 2100 then None else Some s)"
proof (cases "getProp response (str ''title'')")
  case None
  then show ?thesis using assms(2) by (simp add: titleMissingOrEmpty_def)
next
  case (Some v)
  then show ?thesis using assms
    by (cases v)
       (auto simp add: validateDocumentAnalysis_def titleMissingOrEmpty_def validDueDate_def)
qed

lemma year_boundary_dates_west:
  "zoneFullYear (- 480) 946598400000 = 1999"
  "zoneFullYear (- 480) 946684800000 = 1999"
  "zoneFullYear (- 480) 4133894400000 = 2100"
  "zoneFullYear (- 480) 4133980800000 = 2100"
  by code_simp+

text \<open>In the zone UTC+05:30 the four dates of the claim come out as the claim says.\<close>

lemma due_date_years_zone_east:
  "(\<exists>r. validateDocumentAnalysis isoDateParse (zoneFullYear 330)
           (billPayload (str ''1999-12-31'')) = Inr r \<and> due_date r = None)
   \<and> (\<exists>r. validateDocumentAnalysis isoDateParse (zoneFullYear 330)
           (billPayload (str ''2000-01-01'')) = Inr r
          \<and> due_date r = Some (str ''2000-01-01''))
   \<and> (\<exists>r. validateDocumentAnalysis isoDateParse (zoneFullYear 330)
           (billPayload (str ''2100-12-31'')) = Inr r
          \<and> due_date r = Some (str ''2100-12-31''))
   \<and> (\<exists>r. validateDocumentAnalysis isoDateParse (zoneFullYear 330)
           (billPayload (str ''2101-01-01'')) = Inr r \<and> due_date r = None)"
  using
    due_date_by_runtime_year [where parseDate = isoDateParse and fullYear = "zoneFullYear 330"
      and response = "billPayload (str ''1999-12-31'')" and s = "str ''1999-12-31''"
      and t = 946598400000, OF billPayload_props parse_boundary_dates(1)]
    due_date_by_runtime_year [where parseDate = isoDateParse and fullYear = "zoneFullYear 330"
      and response = "billPayload (str ''2000-01-01'')" and s = "str ''2000-01-01''"
      and t = 946684800000, OF billPayload_props parse_boundary_dates(2)]
    due_date_by_runtime_year [where parseDate = isoDateParse and fullYear = "zoneFullYear 330"
      and response = "billPayload (str ''2100-12-31'')" and s = "str ''2100-12-31''"
      and t = 4133894400000, OF billPayload_props parse_boundary_dates(3)]
    due_date_by_runtime_year [where parseDate = isoDateParse and fullYear = "zoneFullYear 330"
      and response = "billPayload (str ''2101-01-01'')" and s = "str ''2101-01-01''"
      and t = 4133980800000, OF billPayload_props parse_boundary_dates(4)]
  by (simp add: year_boundary_dates)

text \<open>
  Claim C4 against the code: in a zone eight hours behind UTC the validator reads the year
  of a date-only string in local time, where midnight UTC of 1 January still belongs to the
  year before. The due date "2000-01-01", of the year 2000, is coerced to null, and the due
  date "2101-01-01", of the year 2101, is retained; the dates "1999-12-31" and "2100-12-31"
  are treated as the claim says.
\<close>

theorem C4_local_year_shifts_bounds:
  "(\<exists>r. validateDocumentAnalysis isoDateParse (zoneFullYear (- 480))
           (billPayload (str ''2000-01-01'')) = Inr r \<and> due_date r = None)
   \<and> (\<exists>r. validateDocumentAnalysis isoDateParse (zoneFullYear (- 480))
           (billPayload (str ''2101-01-01'')) = Inr r
          \<and> due_date r = Some (str ''2101-01-01''))
   \<and> (\<exists>r. validateDocumentAnalysis isoDateParse (zoneFullYear (- 480))
           (billPayload (str ''1999-12-31'')) = Inr r \<and> due_date r = None)
   \<and> (\<exists>r. validateDocumentAnalysis isoDateParse (zoneFullYear (- 480))
           (billPayload (str ''2100-12-31'')) = Inr r
          \<and> due_date r = Some (str ''2100-12-31''))"
  using
    due_date_by_runtime_year [where parseDate = isoDateParse
      and fullYear = "zoneFullYear (- 480)"
      and response = "billPayload (str ''2000-01-01'')" and s = "str ''2000-01-01''"
      and t = 946684800000, OF billPayload_props parse_boundary_dates(2)]
    due_date_by_runtime_year [where parseDate = isoDateParse
      and fullYear = "zoneFullYear (- 480)"
      and response = "billPayload (str ''2101-01-01'')" and s = "str ''2101-01-01''"
      and t = 4133980800000, OF billPayload_props parse_boundary_dates(4)]
    due_date_by_runtime_year [where parseDate = isoDateParse
      and fullYear = "zoneFullYear (- 480)"
      and response = "billPayload (str ''1999-12-31'')" and s = "str ''1999-12-31''"
      and t = 946598400000, OF billPayload_props parse_boundary_dates(1)]
    due_date_by_runtime_year [where parseDate = isoDateParse
      and fullYear = "zoneFullYear (- 480)"
      and response = "billPayload (str ''2100-12-31'')" and s = "str ''2100-12-31''"
      and t = 4133894400000, OF billPayload_props parse_boundary_dates(3)]
  by (simp add: year_boundary_dates_west)

section \<open>Properties of the e-mail classifier\<close>

lemma keywordScore_acc:
  "foldl (\<lambda>score keyword. if str_includes content (toLowerCase keyword) then score + 1 else score)
     acc ks
   = acc + int (length (filter (\<lambda>keyword. str_includes content (toLowerCase keyword)) ks))"
  by (induction ks arbitrary: acc) simp_all

lemma keywordScore_count:
  "keywordScore ks content
   = int (length (filter (\<lambda>keyword. str_includes content (toLowerCase keyword)) ks))"
  by (simp add: keywordScore_def keywordScore_acc)

lemma promotional_keywords_lower:
  "map toLowerCase PROMOTIONAL_KEYWORDS = PROMOTIONAL_KEYWORDS"
  by (simp add: PROMOTIONAL_KEYWORDS_def str_def toLowerCase_def lowerUnit_def)

lemma filter_map_length:
  "length (filter (\<lambda>k. P (f k)) ks) = length (filter P (map f ks))"
  by (induction ks) simp_all

lemma promotionalScore_count:
  "keywordScore PROMOTIONAL_KEYWORDS content = int (promotionalCount content)"
  unfolding keywordScore_count promotionalCount_def
  using filter_map_length [of "str_includes content" toLowerCase PROMOTIONAL_KEYWORDS]
  by (simp add: promotional_keywords_lower)

text \<open>
  Claim C5: for every e-mail, \<open>isTransactionalEmail\<close> returns false whenever at least
  three promotional keywords occur in the lowercased subject and body, whatever
  transactional keywords, amounts, dates or order numbers the e-mail also contains.
\<close>

theorem C5_promotional_short_circuit:
  assumes "promotionalCount (toLowerCase (subject email @ str '' '' @ body email)) \<ge> 3"
  shows "isTransactionalEmail email = False"
  using assms by (simp add: isTransactionalEmail_def Let_def promotionalScore_count)

lemma promoMail_content:
  "toLowerCase (subject promoMail @ str '' '' @ body promoMail)
   = str ''invoice #4821 - payment due big sale: discount offer. pay $150.00, due by 01/15/2026''"
  by (simp add: promoMail_def str_def toLowerCase_def lowerUnit_def)

lemma promoMail_count:
  "promotionalCount (str ''invoice #4821 - payment due big sale: discount offer. pay $150.00, due by 01/15/2026'') = 3"
  unfolding promotionalCount_def PROMOTIONAL_KEYWORDS_def
  by (simp add: str_def)

lemma promoMail_transactional:
  "keywordScore TRANSACTIONAL_KEYWORDS (str ''invoice #4821 - payment due big sale: discount offer. pay $150.00, due by 01/15/2026'') = 3"
  unfolding keywordScore_count TRANSACTIONAL_KEYWORDS_def
  by (simp add: str_def toLowerCase_def lowerUnit_def)

lemma promoMail_order_number:
  "regex_test orderNumberPattern (str ''invoice #4821 - payment due big sale: discount offer. pay $150.00, due by 01/15/2026'')"
  unfolding orderNumberPattern_def numberAfter_def
  by (simp add: str_def liti_def lit_def asciiUpper_def Plus_def Opt_def space_def
        isSpace_def digit_def isDigit_def)

text \<open>An e-mail with three promotional keywords, three transactional keywords, an amount,
  a date and an invoice number is not transactional.\<close>

theorem C5_promotional_short_circuit_witness:
  "promotionalCount (toLowerCase (subject promoMail @ str '' '' @ body promoMail)) \<ge> 3
   \<and> keywordScore TRANSACTIONAL_KEYWORDS
        (toLowerCase (subject promoMail @ str '' '' @ body promoMail)) \<ge> 3
   \<and> regex_test orderNumberPattern
        (toLowerCase (subject promoMail @ str '' '' @ body promoMail))
   \<and> isTransactionalEmail promoMail = False"
proof -
  have h: "promotionalCount (toLowerCase (subject promoMail @ str '' '' @ body promoMail)) \<ge> 3"
    by (simp add: promoMail_content promoMail_count)
  show ?thesis
    using h C5_promotional_short_circuit [OF h]
    by (simp add: promoMail_content promoMail_transactional promoMail_order_number)
qed

section \<open>Properties of the folder-name resolver\<close>

lemma lower_electric: "toLowerCase (str ''Electric Bill'') = str ''electric bill''"
  by (simp add: str_def toLowerCase_def lowerUnit_def)

lemma lower_electricity: "toLowerCase (str ''Electricity Bill'') = str ''electricity bill''"
  by (simp add: str_def toLowerCase_def lowerUnit_def)

lemma no_keyword_electric:
  "firstKeywordFolder documentFolderMap (str ''electric bill'') = None"
  unfolding documentFolderMap_def by (simp add: str_def)

lemma keyword_electricity:
  "firstKeywordFolder documentFolderMap (str ''electricity bill'') = Some (str ''Utility Bills'')"
  unfolding documentFolderMap_def by (simp add: str_def)

lemma finance_documents_differs: "str ''Finance Documents'' \<noteq> str ''Utility Bills''"
  by (simp add: str_def)

text \<open>
  Claim C8, as the specification states it, fails: for the title "Electric Bill" and the
  category Finance, \<open>determineFolderName\<close> does not return "Utility Bills".
\<close>

theorem C8_electric_bill_counterexample:
  "determineFolderName (str ''Electric Bill'') Finance \<noteq> str ''Utility Bills''"
  by (simp add: determineFolderName_def lower_electric no_keyword_electric
        finance_documents_differs)

text \<open>
  Claim C8, amended: for the title "Electric Bill" and the category Finance no keyword of
  the document-type table occurs in the lowercased title (the table has "electricity
  bill"), so \<open>determineFolderName\<close> returns the category fallback "Finance Documents";
  for the title "Electricity Bill" it returns "Utility Bills" through the keyword table.
\<close>

theorem C8_electric_bill_fallback:
  "firstKeywordFolder documentFolderMap (toLowerCase (str ''Electric Bill'')) = None
   \<and> determineFolderName (str ''Electric Bill'') Finance = str ''Finance Documents''
   \<and> determineFolderName (str ''Electricity Bill'') Finance = str ''Utility Bills''"
  by (simp add: determineFolderName_def lower_electric no_keyword_electric
        lower_electricity keyword_electricity)

section \<open>The deadline scheduler and duplicate alerts\<close>











section \<open>Marking an item paid and the alerts of the item\<close>

lemma markAsPaid_leaves_alerts:
  "alerts_table (store (fst (markAsPaid oc itemId app))) = alerts_table (store app)
   \<and> guardian (fst (markAsPaid oc itemId app)) = guardian app"
  by (simp add: markAsPaid_def updateItemStatus_def split: option.splits)

text \<open>
  Claim C7 against the code: marking the sample bill paid succeeds and sets its status to
  \<open>paid\<close> in the store and in memory, and the alert of the bill stays not dismissed,
  in the store and in memory: \<open>markAsPaid\<close> never calls \<open>dismissAlertsForItem\<close>.
\<close>

theorem C7_mark_paid_leaves_alert_active:
  "snd (markAsPaid allSucceed (str ''item-1'') alertedApp) = Inr ()
   \<and> map it_status (items_table (store (fst (markAsPaid allSucceed (str ''item-1'') alertedApp))))
       = [paid]
   \<and> map it_status (items (itemsState (fst (markAsPaid allSucceed (str ''item-1'') alertedApp))))
       = [paid]
   \<and> activeAlerts (str ''item-1'')
         (alerts_table (store (fst (markAsPaid allSucceed (str ''item-1'') alertedApp))))
       = [sampleAlert ''a1'' ''item-1'']
   \<and> activeAlerts (str ''item-1'')
         (alerts (guardian (fst (markAsPaid allSucceed (str ''item-1'') alertedApp))))
       = [sampleAlert ''a1'' ''item-1'']"
proof -
  have ne: "str ''item-2'' \<noteq> str ''item-1''" by (simp add: str_def)
  show ?thesis
    by (simp add: markAsPaid_def updateItemStatus_def allSucceed_def alertedApp_def
          billItem_def initialItemsState_def initialGuardianState_def activeAlerts_def
          sampleAlert_def ne)
qed

text \<open>The sibling path: on the same state \<open>dismissAlertsForItem\<close> dismisses the alert of
  the bill and leaves the alert of the other item as it was.\<close>

lemma dismissAlertsForItem_sample:
  "activeAlerts (str ''item-1'')
     (alerts_table (store (dismissAlertsForItem allSucceed (str ''item-1'') alertedApp))) = []
   \<and> activeAlerts (str ''item-1'')
     (alerts (guardian (dismissAlertsForItem allSucceed (str ''item-1'') alertedApp))) = []
   \<and> activeAlerts (str ''item-2'')
     (alerts_table (store (dismissAlertsForItem allSucceed (str ''item-1'') alertedApp)))
       = [sampleAlert ''a3'' ''item-2'']
   \<and> activeAlerts (str ''item-2'')
     (alerts (guardian (dismissAlertsForItem allSucceed (str ''item-1'') alertedApp)))
       = [sampleAlert ''a3'' ''item-2'']"
proof -
  have ne: "str ''item-2'' \<noteq> str ''item-1''" "str ''item-1'' \<noteq> str ''item-2''"
    "str ''a3'' \<noteq> str ''a1''"
    by (simp_all add: str_def)
  show ?thesis
    by (simp add: dismissAlertsForItem_def dismissAlert_def dismissGuardianAlert_def
          allSucceed_def alertedApp_def initialGuardianState_def activeAlerts_def
          sampleAlert_def ne Let_def)
qed

section \<open>Properties of the scan\<close>

text \<open>
  Claim C10: every call of \<open>scanDocument\<close> that returns a result returns one whose
  \<open>alertCreated\<close> is false and whose \<open>alertType\<close> is null, whatever the analysis (and
  so whatever the due date of the scanned document) is.
\<close>

theorem C10_scan_reports_no_alert:
  assumes "scanDocument env imageUri userId st = (st', Inr r)"
  shows "alertCreated r = False \<and> alertType r = None"
  using assms
  by (auto simp: scanDocument_def Let_def split: sum.splits prod.splits if_splits)

lemma scan_returns:
  assumes "extractTextFromImage env imageUri = Inr ocr"
    and "length (fullText ocr) > 10"
    and "analyzeDocumentText env (fullText ocr) = Inr a"
  shows "\<exists>st' r. scanDocument env imageUri userId st = (st', Inr r) \<and> analysis r = a"
  using assms
  by (simp add: scanDocument_def Let_def split: prod.splits sum.splits)

lemma sampleEnv_calls:
  "extractTextFromImage sampleEnv imageUri
   = Inr \<lparr> fullText = str ''ELECTRICITY BILL DUE DATE 05-11-2026'',
           lines = [str ''ELECTRICITY BILL'', str ''DUE DATE 05-11-2026''],
           confidence = 1 \<rparr>"
  "analyzeDocumentText sampleEnv text = Inr sampleAnalysis"
  by (simp_all add: sampleEnv_def)

text \<open>A scan whose analysis has a due date three days ahead returns and reports no
  alert.\<close>

theorem C10_scan_reports_no_alert_witness:
  "\<exists>st' r. scanDocument sampleEnv (str ''file:///scan-1.jpg'') (str ''user-1'') initialItemsState
             = (st', Inr r)
     \<and> due_date (analysis r) = Some (str ''2026-11-05'')
     \<and> alertCreated r = False \<and> alertType r = None"
proof -
  have len: "length (fullText \<lparr> fullText = str ''ELECTRICITY BILL DUE DATE 05-11-2026'',
           lines = [str ''ELECTRICITY BILL'', str ''DUE DATE 05-11-2026''],
           confidence = 1 \<rparr>) > 10"
    by (simp add: str_def)
  obtain st' r where r: "scanDocument sampleEnv (str ''file:///scan-1.jpg'') (str ''user-1'')
                           initialItemsState = (st', Inr r)"
      and a: "analysis r = sampleAnalysis"
    using scan_returns [OF sampleEnv_calls(1) len sampleEnv_calls(2)] by blast
  have "alertCreated r = False \<and> alertType r = None"
    using C10_scan_reports_no_alert [OF r] .
  moreover have "due_date (analysis r) = Some (str ''2026-11-05'')"
    by (simp add: a sampleAnalysis_def)
  ultimately show ?thesis using r by blast
qed

section \<open>Properties of the request throttle\<close>


lemma loopHead_state:
  assumes "sub = map fst (dispatched rl) @ queue rl"
    and "map ownOutcome (dispatched rl) = settled rl"
    and "isProcessing rl"
  shows "throttleState sub (loopHead nowTime rl)"
proof (cases "queue rl")
  case Nil
  then show ?thesis using assms
    by (simp add: loopHead_def throttleState_def notStarted_def runningOutcome_def)
next
  case (Cons item rest)
  then show ?thesis using assms
    by (simp add: loopHead_def throttleState_def notStarted_def runningOutcome_def
          startRequest_def ownOutcome_def Let_def)
qed

lemma step_state:
  assumes "throttleState sub rl"
  shows "throttleState (sub @ submitted [e]) (step rl e)"
proof (cases e)
  case (Submit item nowTime)
  show ?thesis
  proof (cases "isProcessing rl")
    case True
    then show ?thesis using assms Submit
      by (simp add: queueRequest_def processQueue_def throttleState_def notStarted_def
            runningOutcome_def)
  next
    case False
    then have idle: "worker rl = Idle" "queue rl = []"
      using assms by (simp_all add: throttleState_def)
    have "throttleState (sub @ [item])
            (loopHead nowTime (rl\<lparr> queue := queue rl @ [item], isProcessing := True \<rparr>))"
      using assms idle
      by (intro loopHead_state) (simp_all add: throttleState_def notStarted_def runningOutcome_def)
    then show ?thesis using False Submit
      by (simp add: queueRequest_def processQueue_def)
  qed
next
  case (TimerFires nowTime)
  then show ?thesis using assms
    by (cases "worker rl")
       (simp_all add: throttleState_def notStarted_def runningOutcome_def startRequest_def
          ownOutcome_def)
next
  case (RequestSettles nowTime)
  show ?thesis
  proof (cases "worker rl")
    case (Running item out)
    have "throttleState sub (loopHead nowTime (rl\<lparr> settled := settled rl @ [(promise item, out)] \<rparr>))"
      using assms Running
      by (intro loopHead_state) (simp_all add: throttleState_def notStarted_def runningOutcome_def)
    then show ?thesis using RequestSettles Running by simp
  qed (use assms RequestSettles in simp_all)
qed

lemma submitted_append: "submitted (es @ fs) = submitted es @ submitted fs"
  by (induction es rule: submitted.induct) simp_all

lemma steps_state:
  "throttleState sub rl \<Longrightarrow> throttleState (sub @ submitted es) (foldl step rl es)"
proof (induction es arbitrary: sub rl)
  case Nil
  then show ?case by simp
next
  case (Cons e es)
  have "throttleState (sub @ submitted [e]) (step rl e)" using step_state [OF Cons.prems] .
  from Cons.IH [OF this] show ?case
    using submitted_append [of "[e]" es] by simp
qed

lemma new_state: "throttleState [] newRateLimiter"
  by (simp add: throttleState_def newRateLimiter_def notStarted_def runningOutcome_def)

lemma run_state: "throttleState (submitted es) (run es)"
  using steps_state [OF new_state, of es] by (simp add: run_def)


lemma submitted_workerRounds: "submitted (workerRounds n nowTime) = []"
  by (induction n arbitrary: nowTime) simp_all

lemma pending_parts:
  "length (pendingItems rl) = length (runningOutcome rl) + length (notStarted rl)"
  by (cases "worker rl") (simp_all add: pendingItems_def runningOutcome_def notStarted_def)

lemma pending_bound:
  assumes "throttleState sub rl"
  shows "length (pendingItems rl) \<le> length sub"
proof -
  have "length (map ownOutcome (dispatched rl)) = length (settled rl @ runningOutcome rl)"
    using assms by (simp add: throttleState_def)
  then have "length (runningOutcome rl) \<le> length (dispatched rl)" by simp
  moreover have "length sub = length (dispatched rl) + length (notStarted rl)"
    using assms by (simp add: throttleState_def)
  ultimately show ?thesis by (simp add: pending_parts)
qed

lemma loopHead_pending: "length (pendingItems (loopHead nowTime rl)) = length (queue rl)"
  by (cases "queue rl")
     (simp_all add: loopHead_def pendingItems_def startRequest_def Let_def)

lemma round_pending:
  assumes "throttleState sub rl"
  shows "length (pendingItems (step (step rl (TimerFires t1)) (RequestSettles t2)))
         = length (pendingItems rl) - 1"
proof (cases "worker rl")
  case Idle
  then show ?thesis using assms by (simp add: pendingItems_def throttleState_def)
next
  case (Delaying item)
  then show ?thesis
    by (simp add: startRequest_def loopHead_pending) (simp add: pendingItems_def)
next
  case (Running item out)
  then show ?thesis
    by (simp add: loopHead_pending) (simp add: pendingItems_def)
qed

lemma rounds_idle:
  assumes "throttleState sub rl" and "length (pendingItems rl) \<le> n"
  shows "worker (foldl step rl (workerRounds n nowTime)) = Idle"
  using assms
proof (induction n arbitrary: rl nowTime)
  case 0
  then show ?case by (cases "worker rl") (simp_all add: pendingItems_def)
next
  case (Suc n)
  let ?rl' = "step (step rl (TimerFires (nowTime + 2000))) (RequestSettles (nowTime + 2000))"
  have "throttleState (sub @ submitted [TimerFires (nowTime + 2000), RequestSettles (nowTime + 2000)])
          (foldl step rl [TimerFires (nowTime + 2000), RequestSettles (nowTime + 2000)])"
    using steps_state [OF Suc.prems(1)] .
  then have st: "throttleState sub ?rl'" by simp
  have "length (pendingItems ?rl') \<le> n"
    using round_pending [OF Suc.prems(1)] Suc.prems(2) by simp
  from Suc.IH [OF st this] show ?case by simp
qed

lemma idle_all_done:
  assumes "throttleState sub rl" and "worker rl = Idle"
  shows "map fst (dispatched rl) = sub \<and> settled rl = map ownOutcome (dispatched rl)"
  using assms by (simp add: throttleState_def notStarted_def runningOutcome_def)

text \<open>
  Claim C9: for every sequence of events of the throttle (submissions by any callers,
  firings of the delay timer, settlements of the running request), and whatever each
  request settles to, the requests are started in the order of their submission; every
  promise that was settled got the outcome of its own request, as a value or as an error;
  when the worker is idle every submitted request has been started and settled; and from
  any such state the worker alone, given its timer and settlement events, starts and
  settles every submitted request, a rejected or failed request included.
\<close>

theorem C9_throttle_fifo_own_outcome:
  "prefix (map fst (dispatched (run es))) (submitted es)
   \<and> settled (run es)
       = map ownOutcome (take (length (settled (run es))) (dispatched (run es)))
   \<and> (worker (run es) = Idle
        \<longrightarrow> map fst (dispatched (run es)) = submitted es
            \<and> settled (run es) = map ownOutcome (dispatched (run es)))
   \<and> map fst (dispatched (run (es @ workerRounds (length (submitted es)) nowTime)))
       = submitted es
   \<and> settled (run (es @ workerRounds (length (submitted es)) nowTime))
       = map ownOutcome (dispatched (run (es @ workerRounds (length (submitted es)) nowTime)))"
proof -
  have st: "throttleState (submitted es) (run es)" by (rule run_state)
  have fifo: "prefix (map fst (dispatched (run es))) (submitted es)"
    using st by (simp add: throttleState_def prefix_def)
  have "map ownOutcome (dispatched (run es)) = settled (run es) @ runningOutcome (run es)"
    using st by (simp add: throttleState_def)
  then have "take (length (settled (run es))) (map ownOutcome (dispatched (run es)))
             = settled (run es)" by simp
  then have own: "settled (run es)
       = map ownOutcome (take (length (settled (run es))) (dispatched (run es)))"
    by (simp add: take_map)
  let ?es' = "es @ workerRounds (length (submitted es)) nowTime"
  have sub': "submitted ?es' = submitted es"
    by (simp add: submitted_append submitted_workerRounds)
  have st': "throttleState (submitted es) (run ?es')"
    using run_state [of ?es'] by (simp add: sub')
  have "worker (foldl step (run es) (workerRounds (length (submitted es)) nowTime)) = Idle"
    using rounds_idle [OF st pending_bound [OF st]] .
  then have idle': "worker (run ?es') = Idle" by (simp add: run_def)
  show ?thesis
    using fifo own idle_all_done [OF st] idle_all_done [OF st' idle'] by blast
qed

lemma sample_run_idle: "worker (run sampleEvents) = Idle"
  by (simp add: run_def sampleEvents_def sampleRequest_def newRateLimiter_def queueRequest_def
        processQueue_def loopHead_def startRequest_def minDelayMs_def Let_def)

lemma sample_run_settled:
  "settled (run sampleEvents)
   = [(1, Inr (str ''first'')), (2, Inl (Error (str ''rate limit'') None)),
      (3, Inr (str ''third''))]"
  by (simp add: run_def sampleEvents_def sampleRequest_def newRateLimiter_def queueRequest_def
        processQueue_def loopHead_def startRequest_def minDelayMs_def Let_def)

text \<open>Three requests, the second rejected: all three are started in order and each
  promise gets its own outcome.\<close>

theorem C9_throttle_fifo_own_outcome_witness:
  "worker (run sampleEvents) = Idle
   \<and> map promise (submitted sampleEvents) = [1, 2, 3]
   \<and> map promise (map fst (dispatched (run sampleEvents))) = [1, 2, 3]
   \<and> map ownOutcome (dispatched (run sampleEvents))
       = [(1, Inr (str ''first'')), (2, Inl (Error (str ''rate limit'') None)),
          (3, Inr (str ''third''))]"
proof -
  have s: "map promise (submitted sampleEvents) = [1, 2, 3]"
    by (simp add: sampleEvents_def sampleRequest_def)
  have t: "map fst (dispatched (run sampleEvents)) = submitted sampleEvents
           \<and> settled (run sampleEvents) = map ownOutcome (dispatched (run sampleEvents))"
    using C9_throttle_fifo_own_outcome [of sampleEvents 9500] sample_run_idle by blast
  have a: "map promise (map fst (dispatched (run sampleEvents))) = [1, 2, 3]"
    unfolding conjunct1 [OF t] by (rule s)
  have "map ownOutcome (dispatched (run sampleEvents)) = settled (run sampleEvents)"
    by (rule conjunct2 [OF t, symmetric])
  also have "\<dots> = [(1, Inr (str ''first'')), (2, Inl (Error (str ''rate limit'') None)),
          (3, Inr (str ''third''))]"
    by (rule sample_run_settled)
  finally have b: "map ownOutcome (dispatched (run sampleEvents))
       = [(1, Inr (str ''first'')), (2, Inl (Error (str ''rate limit'') None)),
          (3, Inr (str ''third''))]" .
  show ?thesis using sample_run_idle s a b by blast
qed


end
